theory Spec2Isabelle
  imports Main "HOL-Library.Char_ord" "HOL-Library.List_Lexorder"
begin

section \<open>Python values\<close>

text \<open>
  The report pipeline works on parsed JSON and CSV payloads. A Python float is kept as
  sign, mantissa and decimal exponent (so that \<open>-0.0\<close> exists), or an infinity, or NaN.
  A \<open>dict\<close> is an association list in insertion order; the keys of a dict are distinct.
  Strings are lists of 8-bit characters.
\<close>

datatype pyfloat = Fin bool nat int | Inf bool | NaN

datatype pyval =
    PNone
  | PBool bool
  | PInt int
  | PFloat pyfloat
  | PStr string
  | PList "pyval list"
  | PDict "(string \<times> pyval) list"

type_synonym row = "(string \<times> pyval) list"

text \<open>\<open>isinstance(value, (int, float))\<close>: \<open>bool\<close> is a subclass of \<open>int\<close>.\<close>

fun isinstance_int_float :: "pyval \<Rightarrow> bool" where
  "isinstance_int_float (PBool b) = True"
| "isinstance_int_float (PInt i) = True"
| "isinstance_int_float (PFloat f) = True"
| "isinstance_int_float v = False"

text \<open>\<open>f == 0\<close> on a float: both zeros are equal to 0, NaN and the infinities are not.\<close>

fun float_eq_zero :: "pyfloat \<Rightarrow> bool" where
  "float_eq_zero (Fin s m e) = (m = 0)"
| "float_eq_zero (Inf s) = False"
| "float_eq_zero NaN = False"

text \<open>\<open>value == 0\<close>: \<open>False == 0\<close> holds, as \<open>False\<close> is the integer 0.\<close>

fun eq_zero :: "pyval \<Rightarrow> bool" where
  "eq_zero (PBool b) = (\<not> b)"
| "eq_zero (PInt i) = (i = 0)"
| "eq_zero (PFloat f) = float_eq_zero f"
| "eq_zero v = False"

text \<open>Truthiness, as in \<open>if value\<close>: NaN and the infinities are true.\<close>

fun truthy :: "pyval \<Rightarrow> bool" where
  "truthy PNone = False"
| "truthy (PBool b) = b"
| "truthy (PInt i) = (i \<noteq> 0)"
| "truthy (PFloat f) = (\<not> float_eq_zero f)"
| "truthy (PStr s) = (s \<noteq> [])"
| "truthy (PList xs) = (xs \<noteq> [])"
| "truthy (PDict d) = (d \<noteq> [])"

section \<open>Python strings\<close>

text \<open>\<open>s.lower()\<close> and \<open>s.upper()\<close> on ASCII letters; other characters are unchanged.\<close>

definition lower_char :: "char \<Rightarrow> char" where
  "lower_char c =
     (case map_of (zip ''ABCDEFGHIJKLMNOPQRSTUVWXYZ'' ''abcdefghijklmnopqrstuvwxyz'') c of
        None \<Rightarrow> c
      | Some d \<Rightarrow> d)"


definition lower :: "string \<Rightarrow> string" where
  "lower s = map lower_char s"


text \<open>
  \<open>s.strip()\<close> removes leading and trailing whitespace: tab, line feed, vertical tab,
  form feed, carriage return, the separators 28 to 31 and the space.
\<close>

definition is_space :: "char \<Rightarrow> bool" where
  "is_space c =
     (c \<in> set [CHR 0x09, CHR 0x0A, CHR 0x0B, CHR 0x0C, CHR 0x0D,
                CHR 0x1C, CHR 0x1D, CHR 0x1E, CHR 0x1F, CHR 0x20])"

definition strip :: "string \<Rightarrow> string" where
  "strip s = rev (dropWhile is_space (rev (dropWhile is_space s)))"

text \<open>\<open>sub in s\<close>: \<open>sub\<close> occurs in \<open>s\<close> as a contiguous substring.\<close>

fun contains :: "string \<Rightarrow> string \<Rightarrow> bool" where
  "contains sub [] = (sub = [])"
| "contains sub (c # cs) = (take (length sub) (c # cs) = sub \<or> contains sub cs)"

text \<open>\<open>str(n)\<close> for an integer: decimal digits, with a minus sign when negative.\<close>

definition digit_char :: "nat \<Rightarrow> char" where
  "digit_char d = ''0123456789'' ! d"

fun str_nat :: "nat \<Rightarrow> string" where
  "str_nat n = (if n < 10 then [digit_char n] else str_nat (n div 10) @ [digit_char (n mod 10)])"

declare str_nat.simps [simp del]

definition str_int :: "int \<Rightarrow> string" where
  "str_int i = (if i < 0 then CHR ''-'' # str_nat (nat (- i)) else str_nat (nat i))"

section \<open>The builtins \<open>float\<close>, \<open>repr\<close> and \<open>str\<close>\<close>

text \<open>
  A finite float \<open>Fin s m e\<close> stands for \<open>(-1)^s * m * 10^e\<close>: every double is such a
  decimal. A value read from a payload carries the shortest digits that identify its double;
  the digits of a value computed here are those before rounding to 53 bits, which changes
  neither the sign nor whether the value is zero, infinite or finite.
\<close>

definition is_digit :: "char \<Rightarrow> bool" where
  "is_digit c = (c \<in> set ''0123456789'')"

definition digit_val :: "char \<Rightarrow> nat" where
  "digit_val c =
     (case map_of (zip ''0123456789'' [0, 1, 2, 3, 4, 5, 6, 7, 8, 9]) c of
        None \<Rightarrow> 0
      | Some d \<Rightarrow> d)"

definition nat_of_digits :: "string \<Rightarrow> nat" where
  "nat_of_digits ds = foldl (\<lambda>n c. 10 * n + digit_val c) 0 ds"

text \<open>
  An underscore is allowed only between two digits: the scan keeps the previous character
  (\<open>prev\<close>, initially the null character).
\<close>

fun underscores_ok :: "char \<Rightarrow> string \<Rightarrow> bool" where
  "underscores_ok prev [] = (prev \<noteq> CHR ''_'')"
| "underscores_ok prev (c # cs) =
     ((if c = CHR ''_'' then is_digit prev
       else if prev = CHR ''_'' then is_digit c
       else True) \<and> underscores_ok c cs)"

text \<open>The exponent part: empty, or \<open>e\<close> or \<open>E\<close>, an optional sign and at least one digit.\<close>

definition parse_exponent :: "string \<Rightarrow> int option" where
  "parse_exponent r =
     (case r of
        [] \<Rightarrow> Some 0
      | c # cs \<Rightarrow>
          if c = CHR ''e'' \<or> c = CHR ''E'' then
            (let neg = (take 1 cs = ''-'');
                 ds = (if take 1 cs = ''-'' \<or> take 1 cs = ''+'' then drop 1 cs else cs)
             in if ds \<noteq> [] \<and> list_all is_digit ds
                then Some (if neg then - int (nat_of_digits ds) else int (nat_of_digits ds))
                else None)
          else None)"

text \<open>
  A decimal number: digits, an optional point and digits, an optional exponent, with at
  least one digit before the exponent. The result is the mantissa and the decimal exponent.
\<close>

definition parse_decimal :: "string \<Rightarrow> (nat \<times> int) option" where
  "parse_decimal s =
     (let ip = takeWhile is_digit s;
          r1 = dropWhile is_digit s;
          fp = (if take 1 r1 = ''.'' then takeWhile is_digit (drop 1 r1) else []);
          r2 = (if take 1 r1 = ''.'' then dropWhile is_digit (drop 1 r1) else r1)
      in if ip = [] \<and> fp = [] then None
         else (case parse_exponent r2 of
                 None \<Rightarrow> None
               | Some ex \<Rightarrow> Some (nat_of_digits (ip @ fp), ex - int (length fp))))"

text \<open>
  Rounding to a double, as far as it is visible here: a value of at most \<open>2^-1075\<close> rounds
  to zero, a value of at least \<open>2^1024 - 2^970\<close> rounds to infinity.
\<close>

definition round_double :: "bool \<Rightarrow> nat \<Rightarrow> int \<Rightarrow> pyfloat" where
  "round_double s m e =
     (if m = 0 then Fin s 0 0
      else if 0 \<le> e then
        (if 2 ^ 1024 - 2 ^ 970 \<le> int m * 10 ^ nat e then Inf s else Fin s m e)
      else if int m * 2 ^ 1075 \<le> 10 ^ nat (- e) then Fin s 0 0
      else if (2 ^ 1024 - 2 ^ 970) * 10 ^ nat (- e) \<le> int m then Inf s
      else Fin s m e)"

text \<open>
  \<open>float(s)\<close> on a string: surrounding whitespace is ignored, then underscores are checked
  and removed, then comes an optional sign and \<open>inf\<close>, \<open>infinity\<close>, \<open>nan\<close> (in any case)
  or a decimal number. \<open>None\<close> is \<open>ValueError\<close>.
\<close>

definition float_of_str :: "string \<Rightarrow> pyfloat option" where
  "float_of_str s =
     (let t = strip s in
      if \<not> underscores_ok (CHR 0x00) t then None
      else
        (let u = filter (\<lambda>c. c \<noteq> CHR ''_'') t;
             neg = (take 1 u = ''-'');
             body = (if take 1 u = ''-'' \<or> take 1 u = ''+'' then drop 1 u else u)
         in if lower body = ''inf'' \<or> lower body = ''infinity'' then Some (Inf neg)
            else if lower body = ''nan'' then Some NaN
            else (case parse_decimal body of
                    None \<Rightarrow> None
                  | Some (m, e) \<Rightarrow> Some (round_double neg m e))))"

text \<open>The exceptions the pipeline raises or lets through.\<close>

datatype exn =
    HTTPException nat string
  | ValueError
  | TypeError
  | OverflowError
  | AttributeError

text \<open>
  \<open>float(value)\<close>. An integer too large for a double raises \<open>OverflowError\<close>; \<open>None\<close>,
  lists and dicts raise \<open>TypeError\<close>; a string that is no number raises \<open>ValueError\<close>.
\<close>

fun py_float :: "pyval \<Rightarrow> exn + pyfloat" where
  "py_float PNone = Inl TypeError"
| "py_float (PBool b) = Inr (Fin False (if b then 1 else 0) 0)"
| "py_float (PInt i) =
     (if 2 ^ 1024 - 2 ^ 970 \<le> \<bar>i\<bar> then Inl OverflowError else Inr (Fin (i < 0) (nat \<bar>i\<bar>) 0))"
| "py_float (PFloat f) = Inr f"
| "py_float (PStr s) = (case float_of_str s of None \<Rightarrow> Inl ValueError | Some f \<Rightarrow> Inr f)"
| "py_float (PList xs) = Inl TypeError"
| "py_float (PDict d) = Inl TypeError"

text \<open>
  \<open>repr(f)\<close> of a float from its shortest digits \<open>ds\<close> and the position \<open>decpt\<close> of the
  decimal point: scientific notation when \<open>decpt \<le> -4\<close> or \<open>decpt > 16\<close>.
\<close>

fun strip_zeros :: "nat \<Rightarrow> int \<Rightarrow> nat \<times> int" where
  "strip_zeros m e =
     (if m \<noteq> 0 \<and> m mod 10 = 0 then strip_zeros (m div 10) (e + 1) else (m, e))"

declare strip_zeros.simps [simp del]

definition float_digits :: "nat \<Rightarrow> int \<Rightarrow> string" where
  "float_digits m e =
     (let (m', e') = strip_zeros m e;
          ds = str_nat m';
          decpt = int (length ds) + e'
      in if m' = 0 then ''0.0''
         else if decpt \<le> - 4 \<or> 16 < decpt then
           hd ds # (if tl ds = [] then [] else CHR ''.'' # tl ds) @ ''e''
             @ (if decpt - 1 < 0 then ''-'' else ''+'')
             @ (if \<bar>decpt - 1\<bar> < 10 then ''0'' else [])
             @ str_nat (nat \<bar>decpt - 1\<bar>)
         else if decpt \<le> 0 then ''0.'' @ replicate (nat (- decpt)) (CHR ''0'') @ ds
         else if decpt < int (length ds) then
           take (nat decpt) ds @ CHR ''.'' # drop (nat decpt) ds
         else ds @ replicate (nat decpt - length ds) (CHR ''0'') @ ''.0'')"

fun float_repr :: "pyfloat \<Rightarrow> string" where
  "float_repr (Fin s m e) = (if s then ''-'' else []) @ float_digits m e"
| "float_repr (Inf s) = (if s then ''-inf'' else ''inf'')"
| "float_repr NaN = ''nan''"

text \<open>
  \<open>repr(s)\<close> of a string: single quotes, unless the string has a single quote and no
  double quote; the backslash, the quote, tab, line feed and carriage return are escaped,
  other unprintable characters are written \<open>\xNN\<close>.
\<close>

definition hex2 :: "nat \<Rightarrow> string" where
  "hex2 n = [''0123456789abcdef'' ! (n div 16), ''0123456789abcdef'' ! (n mod 16)]"

definition printable :: "char \<Rightarrow> bool" where
  "printable c =
     (let n = (of_char c :: nat) in 32 \<le> n \<and> n \<noteq> 127 \<and> (n < 128 \<or> 160 < n) \<and> n \<noteq> 173)"

definition escape_char :: "char \<Rightarrow> char \<Rightarrow> string" where
  "escape_char q c =
     (if c = CHR 0x5C then [CHR 0x5C, CHR 0x5C]
      else if c = q then [CHR 0x5C, q]
      else if c = CHR 0x09 then [CHR 0x5C, CHR ''t'']
      else if c = CHR 0x0A then [CHR 0x5C, CHR ''n'']
      else if c = CHR 0x0D then [CHR 0x5C, CHR ''r'']
      else if printable c then [c]
      else CHR 0x5C # CHR ''x'' # hex2 (of_char c))"

definition str_repr :: "string \<Rightarrow> string" where
  "str_repr s =
     (let q = (if CHR 0x27 \<in> set s \<and> CHR 0x22 \<notin> set s then CHR 0x22 else CHR 0x27)
      in q # concat (map (escape_char q) s) @ [q])"

text \<open>\<open>sep.join(parts)\<close>\<close>

fun join :: "string \<Rightarrow> string list \<Rightarrow> string" where
  "join sep [] = []"
| "join sep [p] = p"
| "join sep (p # q # ps) = p @ sep @ join sep (q # ps)"

fun py_repr :: "pyval \<Rightarrow> string" where
  "py_repr PNone = ''None''"
| "py_repr (PBool b) = (if b then ''True'' else ''False'')"
| "py_repr (PInt i) = str_int i"
| "py_repr (PFloat f) = float_repr f"
| "py_repr (PStr s) = str_repr s"
| "py_repr (PList xs) = ''['' @ join '', '' (map py_repr xs) @ '']''"
| "py_repr (PDict d) =
     ''{'' @ join '', '' (map (\<lambda>kv. str_repr (fst kv) @ '': '' @ py_repr (snd kv)) d) @ ''}''"

text \<open>\<open>str(value)\<close>: a string is itself, anything else is its \<open>repr\<close>.\<close>

definition py_str :: "pyval \<Rightarrow> string" where
  "py_str v = (case v of PStr s \<Rightarrow> s | _ \<Rightarrow> py_repr v)"

section \<open>Record cleaner (apps/core/data_processor.py)\<close>

text \<open>
  \<^verbatim>\<open>
  cleaned = {}
  for key, value in row.items():
      if isinstance(value, (int, float)) and value == 0:
          continue
      cleaned[key] = value
  return cleaned
  \<close>
  The keys of \<open>row\<close> are distinct, so every \<open>cleaned[key] = value\<close> appends an item.
\<close>

fun remove_zero_numeric_fields :: "row \<Rightarrow> row" where
  "remove_zero_numeric_fields [] = []"
| "remove_zero_numeric_fields ((key, val) # rest) =
     (if isinstance_int_float val \<and> eq_zero val
      then remove_zero_numeric_fields rest
      else (key, val) # remove_zero_numeric_fields rest)"

text \<open>\<^verbatim>\<open>return {k: v for k, v in row.items() if v is not None and v != ""}\<close>\<close>

definition strip_nulls :: "row \<Rightarrow> row" where
  "strip_nulls r = filter (\<lambda>(k, v). v \<noteq> PNone \<and> v \<noteq> PStr []) r"

text \<open>The cleaner of the JSON path: \<open>removeZeroNumericFields \<circ> stripNulls\<close>.\<close>

definition clean_row :: "row \<Rightarrow> row" where
  "clean_row = remove_zero_numeric_fields \<circ> strip_nulls"

section \<open>Row filter (apps/core/data_processor.py)\<close>

text \<open>\<open>d.get(key, default)\<close>\<close>

definition dict_get :: "row \<Rightarrow> string \<Rightarrow> pyval \<Rightarrow> pyval" where
  "dict_get d key dflt = (case map_of d key of None \<Rightarrow> dflt | Some v \<Rightarrow> v)"

definition is_client_key :: "string \<Rightarrow> bool" where
  "is_client_key key = (contains ''client'' (lower key) \<and> contains ''id'' (lower key))"

definition is_metric_key :: "string \<Rightarrow> bool" where
  "is_metric_key key = (contains ''metric'' (lower key) \<and> contains ''value'' (lower key))"

text \<open>
  \<^verbatim>\<open>
  for key in sample.keys():
      if "client" in key.lower() and "id" in key.lower():
          client_key = key
      if "metric" in key.lower() and "value" in key.lower():
          metric_key = key
  \<close>
\<close>

fun scan_keys :: "string list \<Rightarrow> string option \<times> string option \<Rightarrow> string option \<times> string option" where
  "scan_keys [] (client_key, metric_key) = (client_key, metric_key)"
| "scan_keys (key # keys) (client_key, metric_key) =
     scan_keys keys
       (if is_client_key key then Some key else client_key,
        if is_metric_key key then Some key else metric_key)"

text \<open>\<open>if client_key\<close>: the key is neither \<open>None\<close> nor the empty string.\<close>

fun key_found :: "string option \<Rightarrow> bool" where
  "key_found None = False"
| "key_found (Some key) = (key \<noteq> [])"

text \<open>
  \<^verbatim>\<open>
  for sample in rows[:5]:
      if not isinstance(sample, dict):
          continue
      for key in sample.keys(): ...
      if client_key and metric_key:
          break
  \<close>
  The rows are dicts (\<open>List[Dict[str, Any]]\<close>, the result of \<open>normalize_rows\<close>), so the
  \<open>isinstance\<close> test never skips a sample.
\<close>

fun detect_keys :: "row list \<Rightarrow> string option \<times> string option \<Rightarrow> string option \<times> string option" where
  "detect_keys [] found = found"
| "detect_keys (sample # samples) found =
     (let found' = scan_keys (map fst sample) found
      in if key_found (fst found') \<and> key_found (snd found') then found'
         else detect_keys samples found')"

text \<open>
  \<^verbatim>\<open>
  metric_float = float(metric_value) if metric_value else 0
  if metric_float != 0: ...
  \<close>
  The value of \<open>metric_float != 0\<close>, or the exception that \<open>float\<close> raises.
\<close>

definition metric_nonzero :: "pyval \<Rightarrow> exn + bool" where
  "metric_nonzero metric_value =
     (if truthy metric_value
      then (case py_float metric_value of
              Inl e \<Rightarrow> Inl e
            | Inr metric_float \<Rightarrow> Inr (\<not> float_eq_zero metric_float))
      else Inr False)"

text \<open>
  \<^verbatim>\<open>
  for row in rows:
      client_id = str(row.get(client_key, "")).strip()
      metric_value = row.get(metric_key, 0)
      if client_id == str(target_client_id).strip():
          try:
              metric_float = float(metric_value) if metric_value else 0
              if metric_float != 0:
                  filtered.append(row)
          except (ValueError, TypeError):
              filtered.append(row)
  \<close>
  An exception other than \<open>ValueError\<close> and \<open>TypeError\<close> leaves the loop and the function.
\<close>

fun filter_rows :: "string \<Rightarrow> string \<Rightarrow> string \<Rightarrow> row list \<Rightarrow> exn + row list" where
  "filter_rows client_key metric_key target [] = Inr []"
| "filter_rows client_key metric_key target (row # rows) =
     (let client_id = strip (py_str (dict_get row client_key (PStr [])));
          metric_value = dict_get row metric_key (PInt 0)
      in if client_id = strip target then
           (case metric_nonzero metric_value of
              Inr nonzero \<Rightarrow>
                (if nonzero
                 then map_sum id ((#) row) (filter_rows client_key metric_key target rows)
                 else filter_rows client_key metric_key target rows)
            | Inl e \<Rightarrow>
                (if e = ValueError \<or> e = TypeError
                 then map_sum id ((#) row) (filter_rows client_key metric_key target rows)
                 else Inl e))
         else filter_rows client_key metric_key target rows)"

text \<open>
  \<^verbatim>\<open>
  if not rows:
      return []
  ...
  if not client_key or not metric_key:
      logger.warning("Could not find client ID or metric value columns")
      return rows
  \<close>
\<close>

definition filter_by_client_and_metric :: "row list \<Rightarrow> string \<Rightarrow> exn + row list" where
  "filter_by_client_and_metric rows target =
     (if rows = [] then Inr []
      else
        (case detect_keys (take 5 rows) (None, None) of
           (Some client_key, Some metric_key) \<Rightarrow>
             (if client_key \<noteq> [] \<and> metric_key \<noteq> []
              then filter_rows client_key metric_key target rows
              else Inr rows)
         | _ \<Rightarrow> Inr rows))"





section \<open>Row normalizer\<close>

fun is_dict :: "pyval \<Rightarrow> bool" where
  "is_dict (PDict d) = True"
| "is_dict v = False"

fun is_list :: "pyval \<Rightarrow> bool" where
  "is_list (PList xs) = True"
| "is_list v = False"

fun is_str :: "pyval \<Rightarrow> bool" where
  "is_str (PStr s) = True"
| "is_str v = False"

text \<open>The items of a value known to be a dict, the elements of one known to be a list.\<close>

fun the_dict :: "pyval \<Rightarrow> row" where
  "the_dict (PDict d) = d"
| "the_dict v = []"

fun the_list :: "pyval \<Rightarrow> pyval list" where
  "the_list (PList xs) = xs"
| "the_list v = []"

fun the_str :: "pyval \<Rightarrow> string" where
  "the_str (PStr s) = s"
| "the_str v = []"

text \<open>
  \<open>d[key] = value\<close>: the value of an existing key is replaced in place, a new key is
  added at the end.
\<close>

fun dict_set :: "row \<Rightarrow> string \<Rightarrow> pyval \<Rightarrow> row" where
  "dict_set [] key val = [(key, val)]"
| "dict_set ((k, v) # d) key val =
     (if k = key then (k, val) # d else (k, v) # dict_set d key val)"

text \<open>\<open>dict(pairs)\<close>: the pairs are stored one after the other.\<close>

definition py_dict :: "(string \<times> pyval) list \<Rightarrow> row" where
  "py_dict pairs = foldl (\<lambda>d (key, val). dict_set d key val) [] pairs"

subsection \<open>\<open>DataProcessor.normalize_rows\<close> (apps/core/data_processor.py)\<close>

text \<open>
  \<^verbatim>\<open>
  for row in rows_data:
      if isinstance(row, list) and len(row) == len(headers):
          row_dict = dict(zip(headers, row))
          rows.append(row_dict)
  \<close>
\<close>

fun zip_rows :: "string list \<Rightarrow> pyval list \<Rightarrow> row list" where
  "zip_rows headers [] = []"
| "zip_rows headers (row # rows_data) =
     (if is_list row \<and> length (the_list row) = length headers
      then py_dict (zip headers (the_list row)) # zip_rows headers rows_data
      else zip_rows headers rows_data)"

text \<open>\<^verbatim>\<open>{f"col_{i}": val for i, val in enumerate(row)}\<close>\<close>

definition positional :: "pyval list \<Rightarrow> row" where
  "positional row = map (\<lambda>(i, val). (''col_'' @ str_nat i, val)) (enumerate 0 row)"

text \<open>
  \<^verbatim>\<open>
  for key, value in raw_data.items():
      if isinstance(value, list):
          if all(isinstance(x, dict) for x in value):
              rows.extend(value)
          elif all(isinstance(x, list) for x in value):
              for row in value:
                  if isinstance(row, list):
                      rows.append({f"col_{i}": val for i, val in enumerate(row)})
  \<close>
\<close>

fun flatten_values :: "row \<Rightarrow> row list" where
  "flatten_values [] = []"
| "flatten_values ((key, val) # items) =
     (if is_list val then
        (if list_all is_dict (the_list val) then map the_dict (the_list val)
         else if list_all is_list (the_list val) then map (positional \<circ> the_list) (the_list val)
         else [])
      else []) @ flatten_values items"

text \<open>
  \<open>isinstance(raw_data.get(key), list)\<close>: the key is present and its value is a list.
\<close>

definition has_list :: "row \<Rightarrow> string \<Rightarrow> bool" where
  "has_list d key = (case map_of d key of None \<Rightarrow> False | Some v \<Rightarrow> is_list v)"

text \<open>
  The rows that \<open>normalize_rows\<close> returns are dicts with string keys
  (\<open>List[Dict[str, Any]]\<close>). The result is \<open>None\<close> when a header is not a string: the
  row dicts would have keys that are not strings (and \<open>dict\<close> raises \<open>TypeError\<close> on a list
  or dict as key); such a payload is outside the model.
\<close>

definition normalize_rows :: "pyval \<Rightarrow> row list option" where
  "normalize_rows raw_data =
     (if is_list raw_data \<and> list_all is_dict (the_list raw_data)
      then Some (map the_dict (the_list raw_data))
      else if is_dict raw_data \<and> has_list (the_dict raw_data) ''data''
              \<and> list_all is_dict (the_list (dict_get (the_dict raw_data) ''data'' PNone))
      then Some (map the_dict (the_list (dict_get (the_dict raw_data) ''data'' PNone)))
      else if is_dict raw_data \<and> has_list (the_dict raw_data) ''headers''
              \<and> has_list (the_dict raw_data) ''rows''
      then
        (let headers = the_list (dict_get (the_dict raw_data) ''headers'' PNone);
             rows_data = the_list (dict_get (the_dict raw_data) ''rows'' PNone)
         in if list_all is_str headers
            then Some (zip_rows (map the_str headers) rows_data)
            else None)
      else if is_dict raw_data then Some (flatten_values (the_dict raw_data))
      else Some [])"

subsection \<open>\<open>_normalize_rows\<close> (main.py)\<close>

text \<open>
  \<^verbatim>\<open>
  obj = {}
  for idx, val in enumerate(row):
      if idx < len(headers):
          obj[headers[idx]] = val
  \<close>
\<close>

fun fill_obj :: "string list \<Rightarrow> (nat \<times> pyval) list \<Rightarrow> row \<Rightarrow> row" where
  "fill_obj headers [] obj = obj"
| "fill_obj headers ((idx, val) # rest) obj =
     fill_obj headers rest
       (if idx < length headers then dict_set obj (headers ! idx) val else obj)"

text \<open>
  \<^verbatim>\<open>
  for row in raw.get("rows", []):
      if isinstance(row, list):
          obj = {} ...
          rows.append(obj)
      elif isinstance(row, dict):
          rows.append(row)
  \<close>
\<close>

fun zip_rows_main :: "string list \<Rightarrow> pyval list \<Rightarrow> row list" where
  "zip_rows_main headers [] = []"
| "zip_rows_main headers (row # rows_data) =
     (if is_list row
      then fill_obj headers (enumerate 0 (the_list row)) [] # zip_rows_main headers rows_data
      else if is_dict row then the_dict row # zip_rows_main headers rows_data
      else zip_rows_main headers rows_data)"

text \<open>
  \<^verbatim>\<open>
  for v in raw.values():
      if isinstance(v, list):
          if all(isinstance(x, dict) for x in v):
              rows.extend(v)
          elif isinstance(raw.get("headers"), list):
              headers = [str(h) for h in raw.get("headers", [])]
              for r in v:
                  if isinstance(r, list):
                      obj = {headers[i]: r[i] for i in range(min(len(headers), len(r)))}
                      rows.append(obj)
  \<close>
  This loop is reached only when \<open>headers\<close> or \<open>rows\<close> is not a list.
\<close>

fun flatten_values_main :: "row \<Rightarrow> row \<Rightarrow> row list" where
  "flatten_values_main raw [] = []"
| "flatten_values_main raw ((key, v) # items) =
     (if is_list v then
        (if list_all is_dict (the_list v) then map the_dict (the_list v)
         else if has_list raw ''headers'' then
           (let headers = map py_str (the_list (dict_get raw ''headers'' PNone))
            in map (\<lambda>r. py_dict (zip headers (the_list r))) (filter is_list (the_list v)))
         else [])
      else []) @ flatten_values_main raw items"

definition normalize_rows_main :: "pyval \<Rightarrow> row list" where
  "normalize_rows_main raw =
     (if is_list raw \<and> list_all is_dict (the_list raw)
      then map the_dict (the_list raw)
      else if is_dict raw \<and> has_list (the_dict raw) ''data''
              \<and> list_all is_dict (the_list (dict_get (the_dict raw) ''data'' PNone))
      then map the_dict (the_list (dict_get (the_dict raw) ''data'' PNone))
      else if is_dict raw \<and> has_list (the_dict raw) ''headers''
              \<and> has_list (the_dict raw) ''rows''
      then
        (let headers = map py_str (the_list (dict_get (the_dict raw) ''headers'' PNone))
         in zip_rows_main headers (the_list (dict_get (the_dict raw) ''rows'' PNone)))
      else if is_dict raw then flatten_values_main (the_dict raw) (the_dict raw)
      else [])"

text \<open>
  The rows of the specification: every row that is a list is zipped against the headers;
  values beyond the headers are dropped, a shorter row gives a partial mapping.
\<close>

definition zip_rows_as_claimed :: "string list \<Rightarrow> pyval list \<Rightarrow> row list" where
  "zip_rows_as_claimed headers rows_data =
     map (\<lambda>row. py_dict (zip headers (the_list row))) (filter is_list rows_data)"

section \<open>Format encoder (apps/core/data_processor.py)\<close>










section \<open>Upstream gateway: feature ids (apps/core/gcore_client.py)\<close>








section \<open>Properties of the record cleaner\<close>

lemma remove_zero_numeric_fields_filter:
  "remove_zero_numeric_fields r =
     filter (\<lambda>(k, v). \<not> (isinstance_int_float v \<and> eq_zero v)) r"
  by (induction r) auto

text \<open>
  Claim C8. The composition of \<open>remove_zero_numeric_fields\<close> after \<open>strip_nulls\<close> is
  idempotent: cleaning a record twice gives the same record as cleaning it once.
\<close>

theorem clean_row_idempotent: "clean_row (clean_row r) = clean_row r"
proof -
  let ?P = "\<lambda>(k :: string, v). \<not> (isinstance_int_float v \<and> eq_zero v)"
  let ?Q = "\<lambda>(k :: string, v). v \<noteq> PNone \<and> v \<noteq> PStr []"
  have step: "filter ?Q (filter ?P (filter ?Q r)) = filter ?P (filter ?Q r)"
    by (induction r) auto
  have "clean_row (clean_row r) = filter ?P (filter ?Q (filter ?P (filter ?Q r)))"
    by (simp add: clean_row_def remove_zero_numeric_fields_filter strip_nulls_def)
  also have "\<dots> = filter ?P (filter ?P (filter ?Q r))"
    by (simp only: step)
  also have "\<dots> = filter ?P (filter ?Q r)"
    by simp
  finally show ?thesis
    by (simp add: clean_row_def remove_zero_numeric_fields_filter strip_nulls_def)
qed

text \<open>
  Claim C10. \<open>remove_zero_numeric_fields\<close> drops every field whose value is the Boolean
  \<open>False\<close> (no such field is left in the result) and keeps every field whose value is the
  Boolean \<open>True\<close> (the \<open>True\<close> fields of the result are those of the input, in order).
\<close>

theorem remove_zero_numeric_fields_booleans:
  "filter (\<lambda>(k, v). v = PBool False) (remove_zero_numeric_fields r) = [] \<and>
   filter (\<lambda>(k, v). v = PBool True) (remove_zero_numeric_fields r) =
     filter (\<lambda>(k, v). v = PBool True) r"
  by (induction r) auto

section \<open>Properties of the row filter\<close>

lemma scan_keys_no_client:
  "\<not> list_ex is_client_key keys \<Longrightarrow> fst (scan_keys keys (ck, mk)) = ck"
  by (induction keys arbitrary: ck mk) auto

lemma scan_keys_no_metric:
  "\<not> list_ex is_metric_key keys \<Longrightarrow> snd (scan_keys keys (ck, mk)) = mk"
  by (induction keys arbitrary: ck mk) auto

lemma detect_keys_no_client:
  "\<not> list_ex (\<lambda>r. list_ex is_client_key (map fst r)) samples \<Longrightarrow>
     fst (detect_keys samples (None, mk)) = None"
proof (induction samples arbitrary: mk)
  case Nil
  then show ?case by simp
next
  case (Cons sample samples)
  obtain ck' mk' where sk: "scan_keys (map fst sample) (None, mk) = (ck', mk')"
    by (cases "scan_keys (map fst sample) (None, mk)")
  from Cons.prems have "\<not> list_ex is_client_key (map fst sample)" by simp
  from scan_keys_no_client [OF this, of None mk] sk have ck': "ck' = None" by simp
  from Cons.prems have "\<not> list_ex (\<lambda>r. list_ex is_client_key (map fst r)) samples" by simp
  from Cons.IH [OF this] show ?case by (simp add: sk ck' Let_def)
qed

lemma detect_keys_no_metric:
  "\<not> list_ex (\<lambda>r. list_ex is_metric_key (map fst r)) samples \<Longrightarrow>
     snd (detect_keys samples (ck, None)) = None"
proof (induction samples arbitrary: ck)
  case Nil
  then show ?case by simp
next
  case (Cons sample samples)
  obtain ck' mk' where sk: "scan_keys (map fst sample) (ck, None) = (ck', mk')"
    by (cases "scan_keys (map fst sample) (ck, None)")
  from Cons.prems have "\<not> list_ex is_metric_key (map fst sample)" by simp
  from scan_keys_no_metric [OF this, of ck None] sk have mk': "mk' = None" by simp
  from Cons.prems have "\<not> list_ex (\<lambda>r. list_ex is_metric_key (map fst r)) samples" by simp
  from Cons.IH [OF this] show ?case by (simp add: sk mk' Let_def)
qed

text \<open>
  Claim C9. When no field name of the first 5 records qualifies as the client-id column
  (its lowercased form contains both \<open>client\<close> and \<open>id\<close>), or none qualifies as the
  metric column (it contains both \<open>metric\<close> and \<open>value\<close>), the row filter returns the
  input sequence unchanged.
\<close>

theorem filter_noop_when_column_missing:
  assumes "\<not> list_ex (\<lambda>r. list_ex is_client_key (map fst r)) (take 5 rows) \<or>
           \<not> list_ex (\<lambda>r. list_ex is_metric_key (map fst r)) (take 5 rows)"
  shows "filter_by_client_and_metric rows target = Inr rows"
proof -
  obtain ck mk where d: "detect_keys (take 5 rows) (None, None) = (ck, mk)"
    by (cases "detect_keys (take 5 rows) (None, None)")
  from assms have "ck = None \<or> mk = None"
    using detect_keys_no_client [of "take 5 rows" None]
      detect_keys_no_metric [of "take 5 rows" None] d
    by auto
  then show ?thesis
    by (auto simp: filter_by_client_and_metric_def d split: option.splits)
qed

text \<open>
  The records have a \<open>Client\<close> column, which lacks \<open>id\<close>: the first record would pass the
  filter for client 123 and the second would not, and both are returned.
\<close>

theorem filter_noop_when_column_missing_witness:
  "filter_by_client_and_metric
     [[(''Client'', PStr ''123''), (''Metric value'', PStr ''7'')],
      [(''Client'', PStr ''456''), (''Metric value'', PStr ''0'')]] ''123''
   = Inr [[(''Client'', PStr ''123''), (''Metric value'', PStr ''7'')],
      [(''Client'', PStr ''456''), (''Metric value'', PStr ''0'')]]"
  by (rule filter_noop_when_column_missing)
     (simp add: is_client_key_def lower_def lower_char_def)













section \<open>Properties of the row normalizer\<close>

lemma zip_rows_filter:
  "zip_rows headers rows_data =
     map (\<lambda>row. py_dict (zip headers (the_list row)))
       (filter (\<lambda>row. is_list row \<and> length (the_list row) = length headers) rows_data)"
  by (induction rows_data) auto

lemma dict_get_Some: "map_of d key = Some v \<Longrightarrow> dict_get d key dflt = v"
  by (simp add: dict_get_def)

lemma has_list_Some: "map_of d key = Some (PList xs) \<Longrightarrow> has_list d key"
  by (simp add: has_list_def)

text \<open>
  Claim C4, as amended. For an input mapping with a \<open>headers\<close> list of names and a \<open>rows\<close>
  list (and no \<open>data\<close> list of mappings, which would be returned instead),
  \<open>DataProcessor.normalize_rows\<close> zips against the headers each row that is a list of
  exactly as many values as there are headers, in order; a row of any other length, or
  that is not a list, is discarded.
\<close>

theorem normalize_rows_tabular:
  assumes "map_of d ''headers'' = Some (PList (map PStr names))"
    and "map_of d ''rows'' = Some (PList rows_data)"
    and "\<not> (has_list d ''data'' \<and> list_all is_dict (the_list (dict_get d ''data'' PNone)))"
  shows "normalize_rows (PDict d) =
           Some (map (\<lambda>row. py_dict (zip names (the_list row)))
                  (filter (\<lambda>row. is_list row \<and> length (the_list row) = length names) rows_data))"
proof -
  have "list_all is_str (map PStr names)"
    by (induction names) auto
  moreover have "map the_str (map PStr names) = names"
    by (induction names) auto
  ultimately show ?thesis
    using assms
    by (auto simp: normalize_rows_def has_list_Some dict_get_Some zip_rows_filter Let_def)
qed

text \<open>The scenario of the specification: two rows of two values under two headers.\<close>

theorem normalize_rows_tabular_witness:
  "normalize_rows
     (PDict [(''headers'', PList [PStr ''a'', PStr ''b'']),
             (''rows'', PList [PList [PInt 1, PInt 2], PList [PInt 3, PInt 4]])])
   = Some [[(''a'', PInt 1), (''b'', PInt 2)], [(''a'', PInt 3), (''b'', PInt 4)]]"
  using normalize_rows_tabular
    [of "[(''headers'', PList [PStr ''a'', PStr ''b'']),
          (''rows'', PList [PList [PInt 1, PInt 2], PList [PInt 3, PInt 4]])]"
        "[''a'', ''b'']" "[PList [PInt 1, PInt 2], PList [PInt 3, PInt 4]]"]
  by (simp add: has_list_def py_dict_def)

text \<open>
  The claim as stated fails on a row shorter than the headers: the specification gives it
  a partial mapping, \<open>DataProcessor.normalize_rows\<close> discards it.
\<close>

theorem normalize_rows_drops_short_row_counterexample:
  "normalize_rows
     (PDict [(''headers'', PList [PStr ''a'', PStr ''b'']),
             (''rows'', PList [PList [PInt 1, PInt 2], PList [PInt 3]])])
     = Some [[(''a'', PInt 1), (''b'', PInt 2)]] \<and>
   zip_rows_as_claimed [''a'', ''b''] [PList [PInt 1, PInt 2], PList [PInt 3]]
     = [[(''a'', PInt 1), (''b'', PInt 2)], [(''a'', PInt 3)]]"
  by code_simp

text \<open>
  The normalizer of main.py does what the specification says: a list row of any length is
  zipped against the headers, as far as both reach.
\<close>

lemma fill_obj_foldl:
  "fill_obj headers (enumerate n vs) obj =
     foldl (\<lambda>d (key, val). dict_set d key val) obj (zip (drop n headers) vs)"
proof (induction vs arbitrary: n obj)
  case Nil
  then show ?case by simp
next
  case (Cons v vs)
  show ?case
  proof (cases "n < length headers")
    case True
    then have "drop n headers = headers ! n # drop (Suc n) headers"
      by (simp add: Cons_nth_drop_Suc)
    with True Cons.IH [of "Suc n"] show ?thesis by simp
  next
    case False
    with Cons.IH [of "Suc n"] show ?thesis by simp
  qed
qed

lemma fill_obj_py_dict: "fill_obj headers (enumerate 0 vs) [] = py_dict (zip headers vs)"
  by (simp add: fill_obj_foldl py_dict_def)

lemma zip_rows_main_as_claimed:
  "\<not> list_ex is_dict rows_data \<Longrightarrow>
     zip_rows_main headers rows_data = zip_rows_as_claimed headers rows_data"
  by (induction rows_data) (auto simp: zip_rows_as_claimed_def fill_obj_py_dict)

lemma normalize_rows_main_tabular:
  assumes "map_of d ''headers'' = Some (PList hs)"
    and "map_of d ''rows'' = Some (PList rows_data)"
    and "\<not> (has_list d ''data'' \<and> list_all is_dict (the_list (dict_get d ''data'' PNone)))"
    and "\<not> list_ex is_dict rows_data"
  shows "normalize_rows_main (PDict d) = zip_rows_as_claimed (map py_str hs) rows_data"
  using assms
  by (auto simp: normalize_rows_main_def has_list_Some dict_get_Some zip_rows_main_as_claimed Let_def)

section \<open>Properties of the format encoder\<close>








section \<open>Properties of the feature ids\<close>





end
